theory Spec2Isabelle
  imports Complex_Main
begin

section \<open>The tutorial notebook \<open>docs/tutorials/mixing_single_cell.ipynb\<close>\<close>

text \<open>
  The repository fragment is one Jupyter notebook.  It is modelled on three levels:
  \<^item> the notebook file itself: its cells, their source lines and their recorded outputs;
  \<^item> the Python code of the code cells: a lexer for the source lines and the syntax trees of
    the statements, tied to the source lines by a rendering back to tokens;
  \<^item> what the statements compute where that is Python or numpy: numpy's array functions
    with float64 rounding, Python's tuple unpacking and printing.
  The classes and functions of \<open>gammaALPs\<close> that the notebook calls are not part of the
  fragment; what they do is not modelled.
\<close>

subsection \<open>Cells and recorded outputs\<close>

text \<open>
  An entry of a cell's \<open>outputs\<close> list.  A stream output has a name and its text; an
  \<open>execute_result\<close> has its execution count and the \<open>text/plain\<close> data; a
  \<open>display_data\<close> has the list of its MIME types and the \<open>text/plain\<close> data (the
  base64 payload of \<open>image/png\<close> is not transcribed).
\<close>

datatype cell_output =
  Stream string "string list"
| ExecuteResult nat "string list"
| DisplayData "string list" "string list"

text \<open>A markdown cell has source lines; a code cell has its execution count, source lines
  and outputs.\<close>

datatype cell =
  Markdown "string list"
| Code nat "string list" "cell_output list"

fun is_code :: "cell \<Rightarrow> bool" where
  "is_code (Code _ _ _) = True"
| "is_code (Markdown _) = False"

fun source :: "cell \<Rightarrow> string list" where
  "source (Code _ src _) = src"
| "source (Markdown src) = src"


fun execution_count :: "cell \<Rightarrow> nat option" where
  "execution_count (Code n _ _) = Some n"
| "execution_count (Markdown _) = None"

text \<open>The cells of the notebook, in file order.  The backslash is written \<open>CHR 0x5C\<close>.\<close>

definition cell_imports :: cell where
  \<open>cell_imports = Code 1
    [''from gammaALPs.core import Source, ALP, ModuleList\<newline>'',
     ''from gammaALPs.base.transfer import EminGeV, EmaxGeV\<newline>'',
     ''import numpy as np\<newline>'',
     ''import matplotlib.pyplot as plt\<newline>'',
     ''from astropy import constants as c'']
    []\<close>

definition cell_alp :: cell where
  \<open>cell_alp = Code 2
    [''m, g = 10., 3.\<newline>'',
     ''alp = ALP(m, g)'']
    []\<close>

definition cell_EGeV :: cell where
  \<open>cell_EGeV = Code 3
    [''EGeV = np.logspace(0.,8.,1000)'']
    []\<close>

definition cell_pin :: cell where
  \<open>cell_pin = Code 4
    [''pin = np.diag((1., 0., 0.))'']
    []\<close>

definition cell_src :: cell where
  \<open>cell_src = Code 5
    [''src = Source(z=0., l=0., b=0.)'']
    []\<close>

definition cell_ml :: cell where
  \<open>cell_ml = Code 6
    [''ml = ModuleList(alp, src, pin=pin, EGeV=EGeV, seed=0)'']
    []\<close>

definition cell_add_propagation :: cell where
  \<open>cell_add_propagation = Code 7
    [''ml.add_propagation(environ='ICMCell',\<newline>'',
     ''                   order=0,   # order of the module\<newline>'',
     ''                   B0=1.,  # B field strength\<newline>'',
     ''                   L0=10.,  # cell size\<newline>'',
     ''                   nsim=1,  # one single realization\<newline>'',
     ''                   n0=1e-3,  # electron density\<newline>'',
     ''                   r_abell=10.1,  # full path, chosen that we only have a single cell\<newline>'',
     ''                   beta=0., \<newline>'',
     ''                   eta=0.\<newline>'',
     ''                  )'']
    []\<close>

definition cell_psin :: cell where
  \<open>cell_psin = Code 8
    [''ml.modules[0].psin = np.ones_like(ml.modules[0].psin) * np.pi / 2.'']
    []\<close>

definition cell_run :: cell where
  \<open>cell_run = Code 9
    [''px, py, pa = ml.run()\<newline>'',
     ''print (pa.shape)'']
    [Stream ''stdout'' [''(1, 1000)\<newline>'']]\<close>

definition cell_plot :: cell where
  \<open>cell_plot = Code 10
    [''plt.semilogx(EGeV, pa[0], lw=2)\<newline>'',
     ''\<newline>'',
     ''# the critical energy, onset of strong mixing regime\<newline>'',
     ''plt.axvline(EminGeV(m_neV=ml.alp.m, g11=ml.alp.g, BmuG=ml.modules[0].B, n_cm3=ml.modules[0].nel),\<newline>'',
     ''            lw=1., ls='--', color='k')\<newline>'',
     ''\<newline>'',
     ''# maximum energy, end of strong mixing regime\<newline>'',
     ''plt.axvline(EmaxGeV(g11=ml.alp.g, BmuG=ml.modules[0].B),\<newline>'',
     ''            lw=1., ls='-.', color='k')\<newline>'',
     ''\<newline>'',
     ''plt.xlabel("Energy (GeV)")\<newline>'',
     ''plt.ylabel("$P_{a'' @ CHR 0x5C # ''gamma}$")'']
    [ExecuteResult 10 [''Text(0, 0.5, '$P_{a'' @ CHR 0x5C # CHR 0x5C # ''gamma}$')''],
     DisplayData [''image/png'', ''text/plain''] [''<Figure size 432x288 with 1 Axes>'']]\<close>

definition notebook :: "cell list" where
  \<open>notebook =
    [Markdown
       [''# Mixing in a homogeneous magnetic field\<newline>'',
        ''\<newline>'',
        ''This tutorial demonstrates the most simple use case of the gammaALPs code, namely the mixing between photons and ALPs in a homogeneous magnetic field. The magnetic-field parameters are probably not very realisitic, but the results nicely illustrate some of the main features of photon-ALP mixing. ''],
     Markdown [''We first import the relevant modules:''],
     cell_imports,
     Markdown [''And set the ALP parameters:''],
     cell_alp,
     Markdown [''Let's define an energy range for this example, in GeV.''],
     cell_EGeV,
     Markdown [''For the initial polarization, we use a fully polarized photon beam,''],
     cell_pin,
     Markdown [''And we define some dummy source:''],
     cell_src,
     Markdown [''With the defined `alp`, `src`, initial polarization `pin` and energy range `EGeV`, we can now initialize our module list''],
     cell_ml,
     Markdown
       [''We add a single propagation enivironment, mixing in a cell-like field in a galaxy cluster. \<newline>'',
        ''By setting `eta` and `beta` to zero, we force the electron density to be constant, so \<newline>'',
        ''that neither the magnetic field nor the electron density change with propagation distance. \<newline>'',
        ''We choose arbitrary values for B-field strength and electron density that give nice results for illustration. ''],
     cell_add_propagation,
     Markdown
       [''Now we explicitly set the angle $'' @ CHR 0x5C # ''psi$ between the transversal magnetic field and the $x$ direction to $'' @ CHR 0x5C # ''pi / 2$ so that the $x$ polarization will fully mix. ''],
     cell_psin,
     Markdown [''We run the photon-ALP calculation to get the final oscillation probabilities into the two photon polarization states and into the ALP state''],
     cell_run,
     Markdown [''And plot the results:''],
     cell_plot]\<close>

definition code_cells :: "cell list \<Rightarrow> cell list" where
  "code_cells nb = filter is_code nb"

subsection \<open>Lexical structure of the Python source\<close>

datatype token = TName string | TNum string | TStr string | TOp string

text \<open>The state of the scanner inside one source line.\<close>

datatype lexmode =
  Start
| InName string
| InNum string
| InOp string
| InStr char string bool
| InComment

definition is_space :: "char \<Rightarrow> bool" where
  "is_space c = (c = CHR '' '' \<or> c = CHR 0x0A \<or> c = CHR 0x09 \<or> c = CHR 0x0D)"

definition is_digit :: "char \<Rightarrow> bool" where
  "is_digit c = (c \<in> set ''0123456789'')"

definition is_name_start :: "char \<Rightarrow> bool" where
  "is_name_start c =
     (c \<in> set ''abcdefghijklmnopqrstuvwxyzABCDEFGHIJKLMNOPQRSTUVWXYZ_'')"

definition is_name_char :: "char \<Rightarrow> bool" where
  "is_name_char c = (is_name_start c \<or> is_digit c)"

definition is_quote :: "char \<Rightarrow> bool" where
  "is_quote c = (c = CHR 0x27 \<or> c = CHR 0x22)"

text \<open>Python's operators and delimiters; the scanner takes the longest one.\<close>

definition operators :: "string list" where
  "operators =
     [''+'', ''-'', ''*'', ''**'', ''/'', ''//'', ''%'', ''@'', ''<<'', ''>>'', ''&'', ''|'',
      ''^'', ''~'', '':='', ''<'', ''>'', ''<='', ''>='', ''=='', ''!='',
      ''('', '')'', ''['', '']'', ''{'', ''}'', '','', '':'', ''.'', '';'', ''='', ''->'',
      ''+='', ''-='', ''*='', ''/='', ''//='', ''%='', ''@='', ''&='', ''|='', ''^='',
      ''>>='', ''<<='', ''**='']"

fun flush :: "lexmode \<Rightarrow> token list" where
  "flush Start = []"
| "flush (InName s) = [TName s]"
| "flush (InNum s) = [TNum s]"
| "flush (InOp s) = [TOp s]"
| "flush (InStr q s esc) = [TStr s]"
| "flush InComment = []"

definition scan_start :: "char \<Rightarrow> lexmode" where
  "scan_start c =
     (if is_space c then Start
      else if c = CHR ''#'' then InComment
      else if is_quote c then InStr c [] False
      else if is_name_start c then InName [c]
      else if is_digit c then InNum [c]
      else InOp [c])"

fun step :: "lexmode \<Rightarrow> char \<Rightarrow> lexmode \<times> token list" where
  "step Start c = (scan_start c, [])"
| "step (InName s) c =
     (if is_name_char c then (InName (s @ [c]), []) else (scan_start c, [TName s]))"
| "step (InNum s) c =
     (if is_name_char c \<or> c = CHR ''.'' \<or>
         ((c = CHR ''+'' \<or> c = CHR ''-'') \<and> s \<noteq> [] \<and> (last s = CHR ''e'' \<or> last s = CHR ''E''))
      then (InNum (s @ [c]), []) else (scan_start c, [TNum s]))"
| "step (InOp s) c =
     (if s @ [c] \<in> set operators then (InOp (s @ [c]), [])
      else if s = ''.'' \<and> is_digit c then (InNum (s @ [c]), [])
      else (scan_start c, [TOp s]))"
| "step (InStr q s esc) c =
     (if esc then (InStr q (s @ [c]) False, [])
      else if c = CHR 0x5C then (InStr q (s @ [c]) True, [])
      else if c = q then (Start, [TStr s])
      else (InStr q (s @ [c]) False, []))"
| "step InComment c = (if c = CHR 0x0A then (Start, []) else (InComment, []))"

fun lex_from :: "lexmode \<Rightarrow> string \<Rightarrow> token list" where
  "lex_from m [] = flush m"
| "lex_from m (c # cs) = (case step m c of (m', ts) \<Rightarrow> ts @ lex_from m' cs)"

definition lex_line :: "string \<Rightarrow> token list" where
  "lex_line s = lex_from Start s"

definition tokens :: "cell \<Rightarrow> token list" where
  "tokens c = concat (map lex_line (source c))"

subsection \<open>Syntax trees of the statements\<close>

text \<open>
  The expressions and statements the notebook uses, shaped as Python's \<open>ast\<close> module
  gives them.  A number literal keeps its text; keyword arguments are (name, value)
  pairs in source order.
\<close>

datatype expr =
  Name string
| Num string
| Str string
| Attribute expr string
| Subscript expr expr
| Call expr "expr list" "(string \<times> expr) list"
| Tuple "expr list"
| BinOp expr string expr

datatype stmt =
  Import "string list" "string option"
| ImportFrom "string list" "(string \<times> string option) list"
| Assign expr expr
| Expr expr

text \<open>Rendering a tree back to tokens: the inverse of parsing, up to layout and comments.\<close>

fun sep :: "string \<Rightarrow> token list list \<Rightarrow> token list" where
  "sep d [] = []"
| "sep d [x] = x"
| "sep d (x # y # zs) = x @ [TOp d] @ sep d (y # zs)"

fun render :: "expr \<Rightarrow> token list" where
  "render (Name x) = [TName x]"
| "render (Num s) = [TNum s]"
| "render (Str s) = [TStr s]"
| "render (Attribute e a) = render e @ [TOp ''.'', TName a]"
| "render (Subscript e i) = render e @ [TOp ''[''] @ render i @ [TOp '']'']"
| "render (Call f args kws) =
     render f @ [TOp ''(''] @
     sep '','' (map render args @ map (\<lambda>kw. [TName (fst kw), TOp ''=''] @ render (snd kw)) kws) @
     [TOp '')'']"
| "render (Tuple es) = [TOp ''(''] @ sep '','' (map render es) @ [TOp '')'']"
| "render (BinOp a op b) = render a @ [TOp op] @ render b"

text \<open>At the top of an assignment a tuple is written without parentheses.\<close>

fun render_top :: "expr \<Rightarrow> token list" where
  "render_top (Tuple es) = sep '','' (map render es)"
| "render_top e = render e"

fun render_alias :: "string \<times> string option \<Rightarrow> token list" where
  "render_alias (n, None) = [TName n]"
| "render_alias (n, Some a) = [TName n, TName ''as'', TName a]"

fun render_stmt :: "stmt \<Rightarrow> token list" where
  "render_stmt (Import md a) =
     [TName ''import''] @ sep ''.'' (map (\<lambda>n. [TName n]) md) @
     (case a of None \<Rightarrow> [] | Some x \<Rightarrow> [TName ''as'', TName x])"
| "render_stmt (ImportFrom md ns) =
     [TName ''from''] @ sep ''.'' (map (\<lambda>n. [TName n]) md) @ [TName ''import''] @
     sep '','' (map render_alias ns)"
| "render_stmt (Assign t v) = render_top t @ [TOp ''=''] @ render_top v"
| "render_stmt (Expr e) = render e"

text \<open>The statements of the code cells.\<close>

definition stmt_m_g :: stmt where
  "stmt_m_g = Assign (Tuple [Name ''m'', Name ''g'']) (Tuple [Num ''10.'', Num ''3.''])"

definition stmt_alp :: stmt where
  "stmt_alp = Assign (Name ''alp'') (Call (Name ''ALP'') [Name ''m'', Name ''g''] [])"

definition stmt_EGeV :: stmt where
  "stmt_EGeV = Assign (Name ''EGeV'')
     (Call (Attribute (Name ''np'') ''logspace'') [Num ''0.'', Num ''8.'', Num ''1000''] [])"

definition stmt_pin :: stmt where
  "stmt_pin = Assign (Name ''pin'')
     (Call (Attribute (Name ''np'') ''diag'') [Tuple [Num ''1.'', Num ''0.'', Num ''0.'']] [])"

definition stmt_src :: stmt where
  "stmt_src = Assign (Name ''src'')
     (Call (Name ''Source'') [] [(''z'', Num ''0.''), (''l'', Num ''0.''), (''b'', Num ''0.'')])"

definition stmt_ml :: stmt where
  "stmt_ml = Assign (Name ''ml'')
     (Call (Name ''ModuleList'') [Name ''alp'', Name ''src'']
        [(''pin'', Name ''pin''), (''EGeV'', Name ''EGeV''), (''seed'', Num ''0'')])"

definition call_add_propagation :: expr where
  "call_add_propagation =
     Call (Attribute (Name ''ml'') ''add_propagation'') []
       [(''environ'', Str ''ICMCell''),
        (''order'', Num ''0''),
        (''B0'', Num ''1.''),
        (''L0'', Num ''10.''),
        (''nsim'', Num ''1''),
        (''n0'', Num ''1e-3''),
        (''r_abell'', Num ''10.1''),
        (''beta'', Num ''0.''),
        (''eta'', Num ''0.'')]"

definition module0 :: expr where
  "module0 = Subscript (Attribute (Name ''ml'') ''modules'') (Num ''0'')"

definition stmt_psin :: stmt where
  "stmt_psin = Assign (Attribute module0 ''psin'')
     (BinOp
        (BinOp (Call (Attribute (Name ''np'') ''ones_like'') [Attribute module0 ''psin''] [])
           ''*'' (Attribute (Name ''np'') ''pi''))
        ''/'' (Num ''2.''))"

definition stmt_run :: stmt where
  "stmt_run = Assign (Tuple [Name ''px'', Name ''py'', Name ''pa''])
     (Call (Attribute (Name ''ml'') ''run'') [] [])"

definition stmt_print :: stmt where
  "stmt_print = Expr (Call (Name ''print'') [Attribute (Name ''pa'') ''shape''] [])"

definition alp_attr :: "string \<Rightarrow> expr" where
  "alp_attr a = Attribute (Attribute (Name ''ml'') ''alp'') a"

definition stmts_plot :: "stmt list" where
  \<open>stmts_plot =
    [Expr (Call (Attribute (Name ''plt'') ''semilogx'')
       [Name ''EGeV'', Subscript (Name ''pa'') (Num ''0'')] [(''lw'', Num ''2'')]),
     Expr (Call (Attribute (Name ''plt'') ''axvline'')
       [Call (Name ''EminGeV'') []
          [(''m_neV'', alp_attr ''m''), (''g11'', alp_attr ''g''),
           (''BmuG'', Attribute module0 ''B''), (''n_cm3'', Attribute module0 ''nel'')]]
       [(''lw'', Num ''1.''), (''ls'', Str ''--''), (''color'', Str ''k'')]),
     Expr (Call (Attribute (Name ''plt'') ''axvline'')
       [Call (Name ''EmaxGeV'') []
          [(''g11'', alp_attr ''g''), (''BmuG'', Attribute module0 ''B'')]]
       [(''lw'', Num ''1.''), (''ls'', Str ''-.''), (''color'', Str ''k'')]),
     Expr (Call (Attribute (Name ''plt'') ''xlabel'') [Str ''Energy (GeV)''] []),
     Expr (Call (Attribute (Name ''plt'') ''ylabel'')
       [Str (''$P_{a'' @ CHR 0x5C # ''gamma}$'')] [])]\<close>

definition stmts_imports :: "stmt list" where
  "stmts_imports =
    [ImportFrom [''gammaALPs'', ''core'']
       [(''Source'', None), (''ALP'', None), (''ModuleList'', None)],
     ImportFrom [''gammaALPs'', ''base'', ''transfer'']
       [(''EminGeV'', None), (''EmaxGeV'', None)],
     Import [''numpy''] (Some ''np''),
     Import [''matplotlib'', ''pyplot''] (Some ''plt''),
     ImportFrom [''astropy''] [(''constants'', Some ''c'')]]"

text \<open>The program: for each code cell, by execution count, its statements.\<close>

definition program :: "(nat \<times> stmt list) list" where
  "program =
    [(1, stmts_imports),
     (2, [stmt_m_g, stmt_alp]),
     (3, [stmt_EGeV]),
     (4, [stmt_pin]),
     (5, [stmt_src]),
     (6, [stmt_ml]),
     (7, [Expr call_add_propagation]),
     (8, [stmt_psin]),
     (9, [stmt_run, stmt_print]),
     (10, stmts_plot)]"

definition statements :: "stmt list" where
  "statements = concat (map snd program)"

subsection \<open>Syntactic observations on the program\<close>

fun names_of :: "token list \<Rightarrow> string list" where
  "names_of [] = []"
| "names_of (TName n # ts) = n # names_of ts"
| "names_of (_ # ts) = names_of ts"

fun ops_of :: "token list \<Rightarrow> string list" where
  "ops_of [] = []"
| "ops_of (TOp n # ts) = n # ops_of ts"
| "ops_of (_ # ts) = ops_of ts"

text \<open>Where the code cells use one of the given words (keywords are scanned as names) or
  operators: the execution count of the cell and the word.\<close>

definition word_uses :: "string list \<Rightarrow> cell list \<Rightarrow> (nat option \<times> string) list" where
  "word_uses ws nb =
     concat (map (\<lambda>c. map (Pair (execution_count c)) (filter (\<lambda>n. n \<in> set ws) (names_of (tokens c))))
       (code_cells nb))"

definition op_uses :: "string list \<Rightarrow> cell list \<Rightarrow> (nat option \<times> string) list" where
  "op_uses os nb =
     concat (map (\<lambda>c. map (Pair (execution_count c)) (filter (\<lambda>n. n \<in> set os) (ops_of (tokens c))))
       (code_cells nb))"

definition error_handling_keywords :: "string list" where
  "error_handling_keywords = [''try'', ''except'', ''finally'', ''raise'', ''assert'']"

definition branching_keywords :: "string list" where
  "branching_keywords =
     [''if'', ''elif'', ''else'', ''for'', ''while'', ''with'', ''break'', ''continue'', ''return'']"

definition test_words :: "string list" where
  "test_words = [''is'', ''not'', ''in'', ''and'', ''or'', ''None'']"

definition comparison_operators :: "string list" where
  "comparison_operators = [''=='', ''!='', ''<'', ''>'', ''<='', ''>='']"

definition definition_keywords :: "string list" where
  "definition_keywords = [''def'', ''class'', ''lambda'']"


text \<open>All sub-expressions of an expression, itself first.\<close>

fun subexprs :: "expr \<Rightarrow> expr list" where
  "subexprs (Name x) = [Name x]"
| "subexprs (Num s) = [Num s]"
| "subexprs (Str s) = [Str s]"
| "subexprs (Attribute e a) = Attribute e a # subexprs e"
| "subexprs (Subscript e i) = Subscript e i # subexprs e @ subexprs i"
| "subexprs (Call f args kws) =
     Call f args kws # subexprs f @ concat (map subexprs args) @
     concat (map (\<lambda>kw. subexprs (snd kw)) kws)"
| "subexprs (Tuple es) = Tuple es # concat (map subexprs es)"
| "subexprs (BinOp a op b) = BinOp a op b # subexprs a @ subexprs b"

fun exprs_of :: "stmt \<Rightarrow> expr list" where
  "exprs_of (Assign t v) = subexprs t @ subexprs v"
| "exprs_of (Expr e) = subexprs e"
| "exprs_of _ = []"

text \<open>The arguments of every call of the function named \<open>f\<close>, or of the method named
  \<open>f\<close>, in the program.\<close>

fun call_args :: "string \<Rightarrow> expr \<Rightarrow> (expr list \<times> (string \<times> expr) list) list" where
  "call_args f (Call (Name h) args kws) = (if h = f then [(args, kws)] else [])"
| "call_args f (Call (Attribute e h) args kws) = (if h = f then [(args, kws)] else [])"
| "call_args f _ = []"

definition calls_of :: "string \<Rightarrow> (expr list \<times> (string \<times> expr) list) list" where
  "calls_of f = concat (map (call_args f) (concat (map exprs_of statements)))"

fun is_number :: "expr \<Rightarrow> bool" where
  "is_number (Num _) = True"
| "is_number _ = False"

fun is_name :: "expr \<Rightarrow> bool" where
  "is_name (Name _) = True"
| "is_name _ = False"

text \<open>The names an assignment binds: a name target, or a tuple of names.\<close>

fun target_names :: "expr \<Rightarrow> string list option" where
  "target_names (Name x) = Some [x]"
| "target_names (Tuple es) =
     (if list_all is_name es then Some (concat (map (\<lambda>e. case e of Name x \<Rightarrow> [x] | _ \<Rightarrow> []) es))
      else None)"
| "target_names _ = None"

fun binds :: "stmt \<Rightarrow> string list" where
  "binds (Assign t v) = (case target_names t of Some ns \<Rightarrow> ns | None \<Rightarrow> [])"
| "binds _ = []"

text \<open>The variable at the root of an attribute or subscript chain.\<close>

fun root :: "expr \<Rightarrow> string option" where
  "root (Name x) = Some x"
| "root (Attribute e a) = root e"
| "root (Subscript e i) = root e"
| "root _ = None"

text \<open>The assignments that store into an existing object: the target is an attribute or
  a subscript.\<close>

fun stores :: "stmt \<Rightarrow> expr list" where
  "stores (Assign (Attribute e a) v) = [Attribute e a]"
| "stores (Assign (Subscript e i) v) = [Subscript e i]"
| "stores _ = []"

text \<open>
  The stores of a cell into an object whose variable an earlier cell bound: the binding
  cell, the storing cell and the variable.
\<close>

fun later_stores :: "(nat \<times> stmt list) list \<Rightarrow> (nat \<times> stmt list) list \<Rightarrow> (nat \<times> nat \<times> string) list" where
  "later_stores earlier [] = []"
| "later_stores earlier ((n, ss) # rest) =
     concat (map (\<lambda>t. case root t of None \<Rightarrow> []
                      | Some r \<Rightarrow> map (\<lambda>c. (fst c, n, r))
                          (filter (\<lambda>c. r \<in> set (concat (map binds (snd c)))) earlier))
               (concat (map stores ss)))
     @ later_stores (earlier @ [(n, ss)]) rest"

text \<open>A bound value comes straight from a call when the assigned expression is a call.\<close>

fun bound_by_call :: "stmt \<Rightarrow> bool" where
  "bound_by_call (Assign t (Call f args kws)) = True"
| "bound_by_call (Assign t v) = False"
| "bound_by_call _ = True"








subsection \<open>Arrays\<close>

text \<open>
  A numpy array: its shape, its element type and its elements in row-major order.  An
  element is the real number that a float64 value denotes.  The operations that can round
  (\<open>linspace\<close>, \<open>logspace\<close>, arithmetic with a scalar) round with \<open>f64\<close> below; on the
  values \<open>0.\<close> and \<open>1.\<close> of the polarization matrix no operation rounds.
\<close>

datatype dtype = bool8 | int64 | float64

record ndarray =
  shape :: "nat list"
  dtype :: dtype
  data :: "real list"

datatype error = ValueError | TypeError | IndexError | AttributeError | NameError

definition ndim :: "ndarray \<Rightarrow> nat" where
  "ndim a = length (shape a)"

definition size_of :: "ndarray \<Rightarrow> nat" where
  "size_of a = prod_list (shape a)"

text \<open>\<open>np.asarray\<close> of a tuple of Python floats.\<close>

definition asarray :: "real list \<Rightarrow> ndarray" where
  "asarray xs = \<lparr>shape = [length xs], dtype = float64, data = xs\<rparr>"

text \<open>Element \<open>[i, j]\<close> of a two-dimensional array of \<open>nc\<close> columns.\<close>

definition at2 :: "ndarray \<Rightarrow> nat \<Rightarrow> nat \<Rightarrow> real" where
  "at2 a i j = data a ! (i * (shape a ! 1) + j)"

text \<open>
  \<open>np.diag(v)\<close>: for a one-dimensional \<open>v\<close> the square array with \<open>v\<close> on the diagonal
  and zeros elsewhere; for a two-dimensional \<open>v\<close> its diagonal; otherwise
  \<open>ValueError("Input must be 1- or 2-d.")\<close>.
\<close>

definition diag :: "ndarray \<Rightarrow> error + ndarray" where
  "diag v =
     (case shape v of
        [n] \<Rightarrow> Inr \<lparr>shape = [n, n], dtype = dtype v,
                   data = concat (map (\<lambda>i. map (\<lambda>j. if i = j then data v ! i else 0) [0..<n]) [0..<n])\<rparr>
      | [r, c] \<Rightarrow> Inr \<lparr>shape = [min r c], dtype = dtype v,
                      data = map (\<lambda>i. data v ! (i * c + i)) [0..<min r c]\<rparr>
      | _ \<Rightarrow> Inl ValueError)"

text \<open>The matrix product \<open>a @ b\<close> of two-dimensional arrays.\<close>

definition matmul :: "ndarray \<Rightarrow> ndarray \<Rightarrow> error + ndarray" where
  "matmul a b =
     (case (shape a, shape b) of
        ([n, k], [k', p]) \<Rightarrow>
          if k = k' then
            Inr \<lparr>shape = [n, p], dtype = dtype a,
                 data = concat (map (\<lambda>i. map (\<lambda>j. \<Sum>l\<leftarrow>[0..<k]. at2 a i l * at2 b l j) [0..<p]) [0..<n])\<rparr>
          else Inl ValueError
      | _ \<Rightarrow> Inl ValueError)"

text \<open>\<open>np.trace\<close> of a two-dimensional array.\<close>

definition trace :: "ndarray \<Rightarrow> error + real" where
  "trace a =
     (case shape a of
        [r, c] \<Rightarrow> Inr (\<Sum>i\<leftarrow>[0..<min r c]. at2 a i i)
      | _ \<Rightarrow> Inl ValueError)"

subsection \<open>float64 rounding\<close>

text \<open>Rounding a real to the nearest integer, ties to the even one.\<close>

definition rne :: "real \<Rightarrow> int" where
  "rne t =
     (let f = \<lfloor>t\<rfloor> in
      if t - of_int f < 1 / 2 then f
      else if 1 / 2 < t - of_int f then f + 1
      else if even f then f else f + 1)"

text \<open>
  The distance between neighbouring float64 values at the magnitude of \<open>x\<close>: a float64
  has a significand of 53 bits.
\<close>

definition spacing :: "real \<Rightarrow> real" where
  "spacing x = 2 powr (of_int \<lfloor>log 2 \<bar>x\<bar>\<rfloor> - 52)"

text \<open>
  IEEE 754 rounding to the nearest float64, ties to even.  Overflow and subnormal numbers
  are left out: the numbers of the notebook lie between \<open>2^-7\<close> and \<open>10^8\<close>.
\<close>

definition f64 :: "real \<Rightarrow> real" where
  "f64 x = (if x = 0 then 0 else sgn x * of_int (rne (\<bar>x\<bar> / spacing x)) * spacing x)"

text \<open>
  \<open>np.linspace(start, stop, num)\<close> with \<open>endpoint=True\<close>, as numpy computes it on
  float64 \<open>start\<close> and \<open>stop\<close>: \<open>delta = stop - start\<close>, \<open>step = delta / (num - 1)\<close>,
  element \<open>i\<close> is \<open>i * step + start\<close> (or \<open>i / (num - 1) * delta + start\<close> when the
  step is zero), each operation rounded, and the last element is overwritten with
  \<open>stop\<close> when \<open>num > 1\<close>.  For \<open>num = 1\<close> the only element is \<open>0 * delta + start\<close>.
\<close>

definition linspace :: "real \<Rightarrow> real \<Rightarrow> nat \<Rightarrow> real list" where
  "linspace start stop num =
     (let delta = f64 (stop - start) in
      if num = 0 then []
      else if num = 1 then [f64 (f64 (0 * delta) + start)]
      else (let step = f64 (delta / real (num - 1)) in
        map (\<lambda>i. f64 ((if step = 0 then f64 (f64 (real i / real (num - 1)) * delta)
                         else f64 (real i * step)) + start))
          [0..<num - 1] @ [stop]))"

text \<open>\<open>np.power(10., y)\<close> on a float64 \<open>y\<close>: the power, rounded to float64.\<close>

definition pow10 :: "real \<Rightarrow> real" where
  "pow10 y = f64 (10 powr y)"

text \<open>\<open>np.logspace(start, stop, num)\<close> with base 10: \<open>np.power(10., linspace ...)\<close>.\<close>

definition logspace :: "real \<Rightarrow> real \<Rightarrow> nat \<Rightarrow> ndarray" where
  "logspace start stop num =
     \<lparr>shape = [num], dtype = float64, data = map pow10 (linspace start stop num)\<rparr>"

text \<open>\<open>np.ones_like(a)\<close>: ones in the shape and element type of \<open>a\<close>.\<close>

definition ones_like :: "ndarray \<Rightarrow> ndarray" where
  "ones_like a = \<lparr>shape = shape a, dtype = dtype a, data = replicate (size_of a) 1\<rparr>"




text \<open>The quotients and the differences of base-10 logarithms of consecutive elements.\<close>

definition ratios :: "real list \<Rightarrow> real list" where
  "ratios xs = map2 (\<lambda>a b. b / a) xs (tl xs)"

definition log_steps :: "real list \<Rightarrow> real list" where
  "log_steps xs = map2 (\<lambda>a b. log 10 b - log 10 a) xs (tl xs)"

definition all_equal :: "real list \<Rightarrow> bool" where
  "all_equal xs = (xs = replicate (length xs) (hd xs))"

subsection \<open>The cells that only use numpy\<close>

text \<open>Cell 3: \<open>EGeV = np.logspace(0.,8.,1000)\<close>.\<close>

definition EGeV :: ndarray where
  "EGeV = logspace 0 8 1000"

text \<open>Cell 4: \<open>pin = np.diag((1., 0., 0.))\<close>.\<close>

definition pin :: "error + ndarray" where
  "pin = diag (asarray [1, 0, 0])"



subsection \<open>Python values, unpacking and printing\<close>

datatype pyval =
  VNone
| VInt int
| VFloat real
| VStr string
| VArr ndarray
| VTuple "pyval list"







text \<open>\<open>print(s)\<close> writes \<open>s\<close> and a newline to stdout.\<close>

definition print :: "string \<Rightarrow> string" where
  "print s = s @ [CHR 0x0A]"






definition lifecycle_keywords :: "string list" where
  "lifecycle_keywords = [''class'', ''def'', ''assert'', ''del'', ''with'']"



text \<open>Element \<open>i\<close> of \<open>np.linspace(0., 8., 1000)\<close>, written out.\<close>

definition grid :: "nat \<Rightarrow> real" where
  "grid i = (if i < 999 then f64 (f64 (real i * f64 (8 / 999)) + 0) else 8)"

section \<open>The syntax trees are those of the source\<close>

text \<open>
  For every code cell, the tokens of its source lines are exactly the tokens of its
  statements in \<open>program\<close>: the trees are a parse of the source, and every statement of
  the notebook is an import, an assignment or an expression statement.
\<close>

lemma program_matches_source:
  "map (\<lambda>(n, ss). (Some n, concat (map render_stmt ss))) program =
   map (\<lambda>c. (execution_count c, tokens c)) (code_cells notebook)"
  by code_simp

section \<open>float64 rounding\<close>

lemma rne_int: "rne (of_int k) = k"
  by (simp add: rne_def)

lemma rne_err: "\<bar>of_int (rne t) - t\<bar> \<le> 1 / 2"
proof -
  have "of_int \<lfloor>t\<rfloor> \<le> t" "t < of_int \<lfloor>t\<rfloor> + 1" by linarith+
  then show ?thesis unfolding rne_def Let_def
    by (cases "t - of_int \<lfloor>t\<rfloor> < 1 / 2"; cases "1 / 2 < t - of_int \<lfloor>t\<rfloor>"; cases "even \<lfloor>t\<rfloor>") simp_all
qed

lemma spacing_pos: "0 < spacing x"
  by (simp add: spacing_def)

lemma spacing_le:
  assumes "0 < x"
  shows "spacing x * 2 ^ 52 \<le> x"
proof -
  have "(2::real) powr of_int \<lfloor>log 2 x\<rfloor> \<le> 2 powr log 2 x"
    by (rule powr_mono) simp_all
  also have "\<dots> = x" using assms by simp
  finally have le: "(2::real) powr of_int \<lfloor>log 2 x\<rfloor> \<le> x" .
  have "(2::real) powr 52 = 2 ^ 52"
    by simp
  then have "spacing x * 2 ^ 52 = 2 powr of_int \<lfloor>log 2 x\<rfloor>"
    using assms by (simp add: spacing_def powr_diff)
  with le show ?thesis by simp
qed

lemma f64_pos_form:
  assumes "0 < x"
  shows "f64 x = of_int (rne (x / spacing x)) * spacing x"
proof -
  have "x \<noteq> 0" "sgn x = 1" "\<bar>x\<bar> = x" using assms by simp_all
  then show ?thesis unfolding f64_def by (simp only: if_False mult_1)
qed

lemma f64_err:
  assumes "0 < x"
  shows "\<bar>f64 x - x\<bar> \<le> x / 2 ^ 53"
proof -
  define p where "p = spacing x"
  define t where "t = x / p"
  have p: "0 < p" by (simp add: p_def spacing_pos)
  have x: "x = t * p" using p by (simp add: t_def)
  have "p * 2 ^ 52 \<le> x" unfolding p_def by (rule spacing_le [OF assms])
  then have "p / 2 \<le> x / 2 ^ 53" by simp
  have fx: "f64 x = of_int (rne t) * p"
    unfolding t_def p_def by (rule f64_pos_form [OF assms])
  have "f64 x - x = of_int (rne t) * p - t * p"
    unfolding fx using x by linarith
  then have "f64 x - x = (of_int (rne t) - t) * p"
    by (simp only: left_diff_distrib)
  then have "\<bar>f64 x - x\<bar> = \<bar>of_int (rne t) - t\<bar> * p"
    using p by (simp add: abs_mult)
  also have "\<dots> \<le> 1 / 2 * p"
    using rne_err [of t] p by (intro mult_right_mono) simp_all
  also have "\<dots> \<le> x / 2 ^ 53"
    using \<open>p / 2 \<le> x / 2 ^ 53\<close> by simp
  finally show ?thesis .
qed

lemma f64_pos:
  assumes "0 < x" shows "0 < f64 x"
proof -
  have "x / 2 ^ 53 < x" using assms by simp
  with f64_err [OF assms] show ?thesis by linarith
qed

lemma f64_zero: "f64 0 = 0"
  by (simp add: f64_def)

lemma spacing_rat: "spacing x \<in> \<rat>"
proof -
  have "of_int \<lfloor>log 2 \<bar>x\<bar>\<rfloor> - 52 = real_of_int (\<lfloor>log 2 \<bar>x\<bar>\<rfloor> - 52)" by simp
  then have "spacing x = 2 powr real_of_int (\<lfloor>log 2 \<bar>x\<bar>\<rfloor> - 52)"
    by (simp only: spacing_def)
  also have "\<dots> \<in> \<rat>"
    by (simp only: powr_real_of_int) simp
  finally show ?thesis .
qed

lemma f64_rat: "f64 x \<in> \<rat>"
proof -
  have "sgn x \<in> \<rat>" by (simp add: sgn_real_def)
  then show ?thesis
    using spacing_rat [of x] by (simp add: f64_def)
qed

lemma f64_nat:
  assumes "0 < n" and "n < 2 ^ 53"
  shows "f64 (real n) = real n"
proof -
  define k where "k = \<lfloor>log 2 (real n)\<rfloor>"
  have n1: "1 \<le> real n" using assms(1) by simp
  have "0 \<le> log 2 (real n)" using n1 by simp
  then have k0: "0 \<le> k" by (simp add: k_def)
  have "real n < real (2 ^ 53)" using assms(2) by (simp only: of_nat_less_iff)
  then have "real n < 2 ^ 53" by simp
  also have "(2::real) ^ 53 = 2 powr 53" by simp
  finally have "log 2 (real n) < 53" using n1 by (simp add: log_less_iff)
  then have k52: "k \<le> 52" by (simp add: k_def floor_le_iff)
  define j where "j = nat (52 - k)"
  have e: "of_int k - 52 = - real j" using k52 by (simp add: j_def)
  have p: "spacing (real n) = 1 / 2 ^ j"
    unfolding spacing_def using e by (simp add: k_def [symmetric] powr_minus powr_realpow inverse_eq_divide)
  have "real n / spacing (real n) = of_int (int n * 2 ^ j)"
    by (simp add: p)
  then have "rne (real n / spacing (real n)) = int n * 2 ^ j"
    by (simp only: rne_int)
  then show ?thesis
    using f64_pos_form [of "real n"] assms(1) by (simp add: p)
qed

lemma f64_1: "f64 1 = 1" using f64_nat [of 1] by simp
lemma f64_8: "f64 8 = 8" using f64_nat [of 8] by simp
lemma f64_1e8: "f64 (10 ^ 8) = 10 ^ 8" using f64_nat [of "10 ^ 8"] by simp

section \<open>The energy grid\<close>

lemma step_err: "\<bar>f64 (8 / 999) - 8 / 999\<bar> \<le> 1 / 2 ^ 53"
proof -
  have "\<bar>f64 (8 / 999) - 8 / 999\<bar> \<le> (8 / 999) / 2 ^ 53"
    by (rule f64_err) simp
  also have "\<dots> \<le> 1 / 2 ^ 53" by simp
  finally show ?thesis .
qed

lemma step_pos: "0 < f64 (8 / 999)"
  by (rule f64_pos) simp

lemma linspace_grid: "linspace 0 8 1000 = map grid [0..<1000]"
proof -
  have ne: "f64 (8 / 999) \<noteq> 0" using step_pos by simp
  have "[0..<1000] = [0..<999] @ [999]"
    using upt_Suc_append [of 0 999] by simp
  then have "map grid [0..<1000] = map grid [0..<999] @ [grid 999]" by simp
  also have "grid 999 = 8" by (simp add: grid_def)
  also have "map grid [0..<999] = map (\<lambda>i. f64 (f64 (real i * f64 (8 / 999)) + 0)) [0..<999]"
    by (rule map_cong) (simp_all add: grid_def)
  finally show ?thesis
    using ne by (simp add: linspace_def f64_8 Let_def)
qed

lemma grid_err:
  assumes "i < 1000"
  shows "\<bar>grid i - real i * (8 / 999)\<bar> \<le> 27 / 2 ^ 53"
proof (cases "i < 999")
  case False
  with assms have "i = 999" by simp
  then show ?thesis by (simp add: grid_def)
next
  case True
  show ?thesis
  proof (cases "i = 0")
    case True
    then show ?thesis by (simp add: grid_def f64_zero)
  next
    case False
    define eps where "eps = (1::real) / 2 ^ 53"
    define st where "st = f64 (8 / 999)"
    define a where "a = real i * st"
    define b where "b = f64 a"
    have eps: "0 < eps" "eps \<le> 1 / 100" by (simp_all add: eps_def)
    have i: "1 \<le> real i" "real i \<le> 999" using False True by simp_all
    have st0: "0 < st" unfolding st_def by (rule step_pos)
    have "\<bar>st - 8 / 999\<bar> \<le> (8 / 999) / 2 ^ 53"
      unfolding st_def by (rule f64_err) simp
    then have st: "\<bar>st - 8 / 999\<bar> \<le> (8 / 999) * eps" by (simp add: eps_def)
    have "a - real i * (8 / 999) = real i * (st - 8 / 999)"
      by (simp add: a_def algebra_simps)
    then have "\<bar>a - real i * (8 / 999)\<bar> = real i * \<bar>st - 8 / 999\<bar>"
      by (simp add: abs_mult)
    also have "\<dots> \<le> 999 * ((8 / 999) * eps)"
      using i st by (intro mult_mono) simp_all
    finally have a1: "\<bar>a - real i * (8 / 999)\<bar> \<le> 8 * eps" by simp
    have "real i * (8 / 999) \<le> 8" using i by simp
    with a1 eps have a9: "a \<le> 9" by linarith
    have a0: "0 < a" using i st0 by (simp add: a_def)
    have "\<bar>b - a\<bar> \<le> a / 2 ^ 53" unfolding b_def by (rule f64_err [OF a0])
    then have "\<bar>b - a\<bar> \<le> a * eps" by (simp add: eps_def)
    also have "\<dots> \<le> 9 * eps" using a9 eps by (intro mult_right_mono) simp_all
    finally have b1: "\<bar>b - a\<bar> \<le> 9 * eps" .
    have b0: "0 < b" unfolding b_def by (rule f64_pos [OF a0])
    have b10: "b \<le> 10" using b1 a9 eps by linarith
    have "\<bar>f64 b - b\<bar> \<le> b / 2 ^ 53" by (rule f64_err [OF b0])
    then have "\<bar>f64 b - b\<bar> \<le> b * eps" by (simp add: eps_def)
    also have "\<dots> \<le> 10 * eps" using b10 eps by (intro mult_right_mono) simp_all
    finally have c1: "\<bar>f64 b - b\<bar> \<le> 10 * eps" .
    have "grid i = f64 b" using True by (simp add: grid_def b_def a_def st_def)
    with a1 b1 c1 have "\<bar>grid i - real i * (8 / 999)\<bar> \<le> 27 * eps" by linarith
    then show ?thesis by (simp add: eps_def)
  qed
qed

lemma ln10_ge1: "1 \<le> ln (10::real)"
proof -
  have "exp (1::real) \<le> 3" by (rule exp_le)
  then have "exp (1::real) \<le> 10" by simp
  then have "ln (exp (1::real)) \<le> ln 10" by (subst ln_le_cancel_iff) simp_all
  then show ?thesis by simp
qed

lemma pow10_pos: "0 < pow10 y"
  unfolding pow10_def by (rule f64_pos) simp

lemma pow10_log_err: "\<bar>log 10 (pow10 y) - y\<bar> \<le> 1 / 2 ^ 52"
proof -
  define x where "x = (10::real) powr y"
  define h where "h = (pow10 y - x) / x"
  have x: "0 < x" by (simp add: x_def)
  have "\<bar>pow10 y - x\<bar> \<le> x / 2 ^ 53" unfolding pow10_def x_def by (rule f64_err) simp
  then have "\<bar>pow10 y - x\<bar> / x \<le> (x / 2 ^ 53) / x" using x by (intro divide_right_mono) simp_all
  then have h: "\<bar>h\<bar> \<le> 1 / 2 ^ 53" using x by (simp add: h_def)
  then have h2: "\<bar>h\<bar> \<le> 1 / 2" by simp
  have e: "pow10 y = x * (1 + h)" using x by (simp add: h_def field_simps)
  have h1: "0 < 1 + h" using h2 by (simp add: abs_le_iff)
  have "log 10 (pow10 y) = log 10 x + log 10 (1 + h)"
    unfolding e using x h1 by (simp add: log_mult)
  also have "log 10 x = y" by (simp add: x_def)
  finally have d: "log 10 (pow10 y) - y = ln (1 + h) / ln 10" by (simp add: log_def)
  have "\<bar>ln (1 + h) - h\<bar> \<le> 2 * h\<^sup>2" by (rule abs_ln_one_plus_x_minus_x_bound [OF h2])
  moreover have "2 * h\<^sup>2 \<le> \<bar>h\<bar>"
  proof -
    have "h\<^sup>2 = \<bar>h\<bar> * \<bar>h\<bar>" by (simp add: power2_eq_square)
    also have "\<dots> \<le> \<bar>h\<bar> * (1 / 2)" using h2 by (intro mult_left_mono) simp_all
    finally show ?thesis by simp
  qed
  ultimately have l: "\<bar>ln (1 + h)\<bar> \<le> 2 * \<bar>h\<bar>" by linarith
  have "\<bar>ln (1 + h) / ln 10\<bar> = \<bar>ln (1 + h)\<bar> / ln 10" using ln10_ge1 by simp
  also have "\<dots> \<le> \<bar>ln (1 + h)\<bar> / 1"
    using ln10_ge1 by (intro divide_left_mono) simp_all
  also have "\<dots> \<le> 2 * (1 / 2 ^ 53)" using l h by simp
  finally show ?thesis unfolding d by simp
qed

lemma element_log_err:
  assumes "i < 1000"
  shows "\<bar>log 10 (pow10 (grid i)) - real i * (8 / 999)\<bar> \<le> 1 / 2 ^ 48"
proof -
  have "\<bar>log 10 (pow10 (grid i)) - real i * (8 / 999)\<bar>
      \<le> \<bar>log 10 (pow10 (grid i)) - grid i\<bar> + \<bar>grid i - real i * (8 / 999)\<bar>"
    by simp
  also have "\<dots> \<le> 1 / 2 ^ 52 + 27 / 2 ^ 53"
    by (intro add_mono pow10_log_err grid_err [OF assms])
  also have "\<dots> \<le> 1 / 2 ^ 48" by simp
  finally show ?thesis .
qed

lemma element_less:
  assumes "i < j" and "j < 1000"
  shows "pow10 (grid i) < pow10 (grid j)"
proof -
  have i: "i < 1000" using assms by simp
  have "real i + 1 \<le> real j" using assms(1) by simp
  then have "(real i + 1) * (8 / 999) \<le> real j * (8 / 999)" by simp
  then have s: "real i * (8 / 999) + 8 / 999 \<le> real j * (8 / 999)" by (simp add: algebra_simps)
  have "(2 / 2 ^ 48 :: real) < 8 / 999" by simp
  with element_log_err [OF i] element_log_err [OF assms(2)] s
  have "log 10 (pow10 (grid i)) < log 10 (pow10 (grid j))"
    by linarith
  then show ?thesis using pow10_pos by (simp add: log_less_cancel_iff)
qed

lemma no_rational_root:
  assumes "(r::real) \<in> \<rat>" and "0 < r"
  shows "r ^ 999 \<noteq> 10 ^ 8"
proof
  assume eq: "r ^ 999 = 10 ^ 8"
  from assms(1) obtain m n :: nat where n: "n \<noteq> 0" and r: "\<bar>r\<bar> = real m / real n" and c: "coprime m n"
    by (rule Rats_abs_nat_div_natE)
  have r': "r = real m / real n" using r assms(2) by simp
  have n0: "real n ^ 999 \<noteq> 0" using n by simp
  have "real m ^ 999 / real n ^ 999 = 10 ^ 8"
    using eq by (simp only: r' power_divide)
  moreover have "a / b = c \<Longrightarrow> b \<noteq> 0 \<Longrightarrow> a = c * b" for a b c :: real
    by (simp add: field_simps)
  ultimately have "real m ^ 999 = 10 ^ 8 * real n ^ 999"
    using n0 by blast
  then have "real (m ^ 999) = real (10 ^ 8 * n ^ 999)"
    by (simp only: of_nat_power of_nat_mult of_nat_numeral)
  then have nat_eq: "m ^ 999 = 10 ^ 8 * n ^ 999" by (simp only: of_nat_eq_iff)
  then have "n ^ 999 dvd m ^ 999" by simp
  moreover have "coprime (m ^ 999) (n ^ 999)" using c by simp
  ultimately have "is_unit (n ^ 999)"
    by (meson coprime_common_divisor dvd_refl)
  then have "n = 1" by simp
  with nat_eq have m: "m ^ 999 = 10 ^ 8" by simp
  show False
  proof (cases "m < 2")
    case True
    then have "m = 0 \<or> m = 1" by auto
    with m show False by auto
  next
    case False
    then have "2 \<le> m" by simp
    then have "(2::nat) ^ 999 \<le> m ^ 999" by (rule power_mono) simp
    moreover have "(2::nat) ^ 27 \<le> 2 ^ 999" by (rule power_increasing) simp_all
    moreover have "(10::nat) ^ 8 < 2 ^ 27" by simp
    ultimately show False using m by linarith
  qed
qed

lemma EGeV_nth: "i < 1000 \<Longrightarrow> (data EGeV) ! i = pow10 (grid i)"
  by (simp add: EGeV_def logspace_def linspace_grid)

lemma EGeV_length: "length (data EGeV) = 1000"
  by (simp add: EGeV_def logspace_def linspace_grid)

lemma grid_0: "grid 0 = 0"
  by (simp add: grid_def f64_zero)

lemma EGeV_first: "(data EGeV) ! 0 = 1"
  by (simp add: EGeV_nth grid_0 pow10_def f64_1)

lemma EGeV_at_999: "(data EGeV) ! 999 = 10 ^ 8"
proof -
  have "(data EGeV) ! 999 = pow10 (grid 999)" by (rule EGeV_nth) simp
  also have "grid 999 = 8" by (simp add: grid_def)
  also have "pow10 8 = f64 (10 powr 8)" by (simp only: pow10_def)
  also have "(10::real) powr 8 = 10 ^ 8" by simp
  finally show ?thesis by (simp only: f64_1e8)
qed

lemma ratios_nth: "i < 999 \<Longrightarrow> ratios (data EGeV) ! i = (data EGeV) ! Suc i / (data EGeV) ! i"
  by (simp add: ratios_def EGeV_length nth_tl)

lemma ratios_length: "length (ratios (data EGeV)) = 999"
  by (simp add: ratios_def EGeV_length)

lemma ratios_not_all_equal: "\<not> all_equal (ratios (data EGeV))"
proof
  assume "all_equal (ratios (data EGeV))"
  then have eq: "ratios (data EGeV) = replicate 999 (hd (ratios (data EGeV)))"
    by (simp add: all_equal_def ratios_length)
  define r where "r = hd (ratios (data EGeV))"
  have pos: "0 < (data EGeV) ! i" if "i < 1000" for i
    using that by (simp add: EGeV_nth pow10_pos)
  have step: "(data EGeV) ! Suc i = r * (data EGeV) ! i" if "i < 999" for i
  proof -
    have "ratios (data EGeV) ! i = r" using that by (subst eq) (simp add: r_def)
    then have "(data EGeV) ! Suc i / (data EGeV) ! i = r" using that by (simp add: ratios_nth)
    moreover have "(data EGeV) ! i \<noteq> 0" using pos [of i] that by simp
    ultimately show ?thesis by (simp add: field_simps)
  qed
  have geo: "i \<le> 999 \<Longrightarrow> (data EGeV) ! i = r ^ i" for i
  proof (induction i)
    case 0
    show ?case by (simp add: EGeV_first)
  next
    case (Suc i)
    then show ?case using step [of i] by simp
  qed
  have r1: "r = (data EGeV) ! 1" using geo [of 1] by simp
  then have "r = pow10 (grid 1)" by (simp add: EGeV_nth)
  then have "r \<in> \<rat>" "0 < r" by (simp_all add: pow10_def f64_rat pow10_pos [unfolded pow10_def])
  then have "r ^ 999 \<noteq> 10 ^ 8" by (rule no_rational_root)
  moreover have "r ^ 999 = 10 ^ 8" using geo [of 999] EGeV_at_999 by simp
  ultimately show False by simp
qed

lemma log_steps_not_all_equal: "\<not> all_equal (log_steps (data EGeV))"
proof
  assume "all_equal (log_steps (data EGeV))"
  then have eq: "log_steps (data EGeV) = replicate 999 (hd (log_steps (data EGeV)))"
    by (simp add: all_equal_def log_steps_def EGeV_length)
  define d where "d = hd (log_steps (data EGeV))"
  have pos: "0 < (data EGeV) ! i" if "i < 1000" for i
    using that by (simp add: EGeV_nth pow10_pos)
  have "ratios (data EGeV) = replicate 999 (10 powr d)"
  proof (rule nth_equalityI)
    show "length (ratios (data EGeV)) = length (replicate 999 (10 powr d))"
      by (simp add: ratios_length)
  next
    fix i assume "i < length (ratios (data EGeV))"
    then have i: "i < 999" by (simp add: ratios_length)
    have "log_steps (data EGeV) ! i = d" using i by (subst eq) (simp add: d_def)
    then have "log 10 ((data EGeV) ! Suc i) - log 10 ((data EGeV) ! i) = d"
      using i by (simp add: log_steps_def EGeV_length nth_tl)
    then have "log 10 ((data EGeV) ! Suc i / (data EGeV) ! i) = d"
      using pos [of i] pos [of "Suc i"] i by (simp add: log_divide)
    moreover have "0 < (data EGeV) ! Suc i / (data EGeV) ! i"
      using pos [of i] pos [of "Suc i"] i by simp
    then have "10 powr log 10 ((data EGeV) ! Suc i / (data EGeV) ! i) = (data EGeV) ! Suc i / (data EGeV) ! i"
      by simp
    ultimately have "(data EGeV) ! Suc i / (data EGeV) ! i = 10 powr d"
      by simp
    then show "ratios (data EGeV) ! i = replicate 999 (10 powr d) ! i"
      using i by (simp add: ratios_nth)
  qed
  then have "all_equal (ratios (data EGeV))"
    by (simp add: all_equal_def)
  with ratios_not_all_equal show False by simp
qed

lemma EGeV_shape: "shape EGeV = [1000]"
  by (simp add: EGeV_def logspace_def)

lemma EGeV_last: "last (data EGeV) = 10 ^ 8"
proof -
  have "data EGeV \<noteq> []"
    using EGeV_length by auto
  then have "last (data EGeV) = data EGeV ! (length (data EGeV) - 1)"
    by (rule last_conv_nth)
  also have "length (data EGeV) - 1 = 999"
    by (simp add: EGeV_length)
  finally show ?thesis
    by (simp only: EGeV_at_999)
qed

lemma EGeV_sorted: "sorted_wrt (<) (data EGeV)"
  unfolding sorted_wrt_iff_nth_less
  by (simp add: EGeV_length EGeV_nth element_less)

lemma EGeV_log_grid:
  "list_all (\<lambda>i. \<bar>log 10 (data EGeV ! i) - real i * (8 / 999)\<bar> \<le> 1 / 2 ^ 48) [0..<1000]"
  unfolding list_all_iff
proof
  fix i assume "i \<in> set [0..<1000]"
  then have i: "i < 1000"
    by simp
  show "\<bar>log 10 (data EGeV ! i) - real i * (8 / 999)\<bar> \<le> 1 / 2 ^ 48"
    unfolding EGeV_nth [OF i] by (rule element_log_err [OF i])
qed

text \<open>
  Claim C3, as stated, fails for the float64 array: its elements are rational numbers, the
  first is 1 and the last is \<open>10^8\<close>, and no rational number has \<open>10^8\<close> as its 999th
  power.  So the consecutive ratios are not all the same, and the base-10 logarithms are
  not equally spaced.
\<close>

theorem logspace_not_exactly_geometric:
  "\<not> all_equal (ratios (data EGeV)) \<and> \<not> all_equal (log_steps (data EGeV))"
  by (intro conjI ratios_not_all_equal log_steps_not_all_equal)

text \<open>
  Claim C3, amended.  \<open>EGeV = np.logspace(0., 8., 1000)\<close> is a one-dimensional array of
  exactly 1000 energies.  Its first element is \<open>10^0 = 1\<close>, its last element is
  \<open>10^8\<close>, and it is strictly increasing.  The base-10 logarithm of element \<open>i\<close> is
  within \<open>2^-48\<close> of \<open>i * 8/999\<close>: the logarithms are equally spaced up to float64
  rounding.
\<close>

theorem logspace_grid_rounded:
  "shape EGeV = [1000] \<and> length (data EGeV) = 1000 \<and>
   data EGeV ! 0 = 1 \<and>
   data EGeV ! 999 = 10 ^ 8 \<and> last (data EGeV) = 10 ^ 8 \<and>
   sorted_wrt (<) (data EGeV) \<and>
   list_all (\<lambda>i. \<bar>log 10 (data EGeV ! i) - real i * (8 / 999)\<bar> \<le> 1 / 2 ^ 48) [0..<1000]"
  by (intro conjI EGeV_shape EGeV_length EGeV_first EGeV_at_999 EGeV_last EGeV_sorted
      EGeV_log_grid)

section \<open>The initial polarization\<close>

lemma pin_value:
  "pin = Inr \<lparr>shape = [3, 3], dtype = float64, data = [1, 0, 0, 0, 0, 0, 0, 0, 0]\<rparr>"
  by (simp add: pin_def diag_def asarray_def upt_rec)

text \<open>
  Claim C8.  \<open>pin = np.diag((1., 0., 0.))\<close> is a 3x3 matrix with 1 in the top left
  corner and 0 elsewhere.  It is idempotent (\<open>pin @ pin = pin\<close>), its trace is 1, and
  each of its six off-diagonal entries is 0: the density matrix of a pure state, the beam
  fully polarized along x.
\<close>

theorem pin_pure_state:
  "\<exists>P. pin = Inr P \<and> shape P = [3, 3] \<and> data P = [1, 0, 0, 0, 0, 0, 0, 0, 0] \<and>
        matmul P P = Inr P \<and> trace P = Inr 1 \<and>
        [at2 P i j. i \<leftarrow> [0..<3], j \<leftarrow> [0..<3], i \<noteq> j] = replicate 6 0"
  by (simp add: pin_value matmul_def trace_def at2_def upt_rec numeral_eq_Suc)

section \<open>Stores into existing objects\<close>





section \<open>Running the calculation\<close>






section \<open>What the code cells do not contain\<close>

text \<open>
  Claim C5.  No code cell contains \<open>try\<close>, \<open>except\<close>, \<open>finally\<close>, \<open>raise\<close> or
  \<open>assert\<close>; none contains a branch or a loop, a comparison operator or a test word
  (\<open>is\<close>, \<open>not\<close>, \<open>in\<close>, \<open>and\<close>, \<open>or\<close>, \<open>None\<close>) that could check a returned
  value.  Every code cell is a straight sequence of import, assignment and expression
  statements, so an exception of a library call is not handled.
\<close>

theorem no_error_handling:
  "word_uses error_handling_keywords notebook = [] \<and>
   word_uses branching_keywords notebook = [] \<and>
   word_uses test_words notebook = [] \<and>
   op_uses comparison_operators notebook = [] \<and>
   map (\<lambda>(n, ss). (Some n, concat (map render_stmt ss))) program =
     map (\<lambda>c. (execution_count c, tokens c)) (code_cells notebook)"
proof (intro conjI)
  show "word_uses error_handling_keywords notebook = []"
    by code_simp
  show "word_uses branching_keywords notebook = []"
    by code_simp
  show "word_uses test_words notebook = []"
    by code_simp
  show "op_uses comparison_operators notebook = []"
    by code_simp
  show "map (\<lambda>(n, ss). (Some n, concat (map render_stmt ss))) program =
     map (\<lambda>c. (execution_count c, tokens c)) (code_cells notebook)"
    by (rule program_matches_source)
qed

text \<open>
  Claim C6, as stated, fails: not every value the notebook binds is the result of a call.
\<close>

theorem not_all_bound_by_call: "\<not> list_all bound_by_call statements"
  by code_simp

text \<open>
  Claim C6, amended.  No code cell defines a function or a class (\<open>def\<close>, \<open>class\<close>,
  \<open>lambda\<close>).  Every value the notebook binds is the result of a call, with two
  exceptions: cell 2 binds \<open>m\<close> and \<open>g\<close> to the literals \<open>10.\<close> and \<open>3.\<close>, and
  cell 8 computes the new \<open>psin\<close> itself, as the result of \<open>np.ones_like\<close> times
  \<open>np.pi\<close> divided by \<open>2.\<close>.
\<close>

theorem bound_values:
  "word_uses definition_keywords notebook = [] \<and>
   filter (\<lambda>s. \<not> bound_by_call s) statements = [stmt_m_g, stmt_psin] \<and>
   stmt_m_g = Assign (Tuple [Name ''m'', Name ''g'']) (Tuple [Num ''10.'', Num ''3.'']) \<and>
   stmt_psin = Assign (Attribute module0 ''psin'')
     (BinOp
        (BinOp (Call (Attribute (Name ''np'') ''ones_like'') [Attribute module0 ''psin''] [])
           ''*'' (Attribute (Name ''np'') ''pi''))
        ''/'' (Num ''2.''))"
proof (intro conjI)
  show "word_uses definition_keywords notebook = []"
    by code_simp
  show "filter (\<lambda>s. \<not> bound_by_call s) statements = [stmt_m_g, stmt_psin]"
    by code_simp
  show "stmt_m_g = Assign (Tuple [Name ''m'', Name ''g'']) (Tuple [Num ''10.'', Num ''3.''])"
    by (simp add: stmt_m_g_def)
  show "stmt_psin = Assign (Attribute module0 ''psin'')
     (BinOp
        (BinOp (Call (Attribute (Name ''np'') ''ones_like'') [Attribute module0 ''psin''] [])
           ''*'' (Attribute (Name ''np'') ''pi''))
        ''/'' (Num ''2.''))"
    by (simp add: stmt_psin_def)
qed

text \<open>
  Claim C7.  \<open>ALP\<close> is called once, with exactly the two positional arguments \<open>m\<close>
  and \<open>g\<close>, which cell 2 binds to the number literals \<open>10.\<close> and \<open>3.\<close>;
  \<open>Source\<close> is called once, with exactly the three keyword arguments \<open>z\<close>, \<open>l\<close>
  and \<open>b\<close>, each the number literal \<open>0.\<close>.  The notebook defines no class or
  function, asserts nothing and uses neither \<open>del\<close> nor \<open>with\<close>, and its only store
  into an object goes through \<open>ml\<close>, not through \<open>alp\<close> or \<open>src\<close>.
\<close>

theorem constructor_arities:
  "calls_of ''ALP'' = [([Name ''m'', Name ''g''], [])] \<and>
   filter (\<lambda>s. ''m'' \<in> set (binds s) \<or> ''g'' \<in> set (binds s)) statements = [stmt_m_g] \<and>
   stmt_m_g = Assign (Tuple [Name ''m'', Name ''g'']) (Tuple [Num ''10.'', Num ''3.'']) \<and>
   calls_of ''Source'' = [([], [(''z'', Num ''0.''), (''l'', Num ''0.''), (''b'', Num ''0.'')])] \<and>
   word_uses lifecycle_keywords notebook = [] \<and>
   later_stores [] program = [(6, 8, ''ml'')]"
proof (intro conjI)
  show "calls_of ''ALP'' = [([Name ''m'', Name ''g''], [])]"
    by code_simp
  show "filter (\<lambda>s. ''m'' \<in> set (binds s) \<or> ''g'' \<in> set (binds s)) statements = [stmt_m_g]"
    by code_simp
  show "stmt_m_g = Assign (Tuple [Name ''m'', Name ''g'']) (Tuple [Num ''10.'', Num ''3.''])"
    by (simp add: stmt_m_g_def)
  show "calls_of ''Source'' = [([], [(''z'', Num ''0.''), (''l'', Num ''0.''), (''b'', Num ''0.'')])]"
    by code_simp
  show "word_uses lifecycle_keywords notebook = []"
    by code_simp
  show "later_stores [] program = [(6, 8, ''ml'')]"
    by code_simp
qed

end
